theory Spec2Isabelle
  imports Main "HOL-Library.Word"
begin

unbundle bit_operations_syntax

section \<open>Stellar transaction signing (firmware/stellar.c)\<close>

text \<open>
  A shallow embedding of \<^verbatim>\<open>firmware/stellar.c\<close>: the two file-level variables
  \<^verbatim>\<open>stellar_signing\<close> and \<^verbatim>\<open>stellar_activeTx\<close> become fields of a state record that
  every function takes and returns; the SHA-256 context records how it was started
  and the bytes fed to it since; what the functions send to the host and show on the screen is
  appended to a trace; the answers of the user to \<^verbatim>\<open>protectButton\<close> are read from a
  list. The cryptographic primitives and the root-key storage belong to other
  libraries and are parameters of the model.
\<close>

subsection \<open>Machine types\<close>

type_synonym u8 = "8 word"
type_synonym u16 = "16 word"
type_synonym u32 = "32 word"
type_synonym u64 = "64 word"

text \<open>
  Modelled from the spec: the types of the messages, of a node of the key tree and of
  the failure codes are declared in headers that are not among the sources
  (\<^verbatim>\<open>messages.pb.h\<close>, \<^verbatim>\<open>bip32.h\<close>, \<^verbatim>\<open>types.pb.h\<close>). The records below have
  the fields that \<^verbatim>\<open>stellar.c\<close> reads, with the widths that the specification gives
  for the header and the operation (32-bit fee, index, bounds, counts and type
  discriminants, 64-bit sequence number, amount and memo identifier, keys of 32 bytes).

  A protobuf \<^verbatim>\<open>bytes\<close> field as nanopb stores it: the number of bytes received and
  the array that holds them.
\<close>

record pb_bytes_array =
  pb_size :: nat
  pb_bytes :: "u8 list"

text \<open>
  The fields of the messages \<^verbatim>\<open>StellarSignTx\<close> and \<^verbatim>\<open>StellarTxOpAck\<close> that
  \<^verbatim>\<open>stellar.c\<close> reads. A \<^verbatim>\<open>char\<close> array is the list of its bytes.
\<close>

record StellarAssetType =
  asset_type :: u32
  code :: "u8 list"
  issuer :: pb_bytes_array

record StellarSignTx =
  network_passphrase :: "u8 list"
  index :: u32
  fee :: u32
  sequence_number :: u64
  timebounds_start :: u32
  timebounds_end :: u32
  memo_type :: u32
  memo_text :: "u8 list"
  memo_id :: u64
  memo_hash :: pb_bytes_array
  num_operations :: u32

record StellarTxOpAck =
  source_account :: pb_bytes_array
  op_type :: u32
  destination_account :: pb_bytes_array
  amount :: u64
  asset :: StellarAssetType

text \<open>
  Modelled from the spec: the struct \<^verbatim>\<open>SHA256_CTX\<close> belongs to the SHA-2 library,
  which is not among the sources; the specification calls it a streaming SHA-256
  state, opaque and append-only. A context is described by how it was started and by
  the bytes fed to it since: \<open>initialised\<close> holds when \<^verbatim>\<open>sha256_Init\<close> started it, and
  not when its memory was zeroed (\<^verbatim>\<open>memset\<close>, the start of the program).
\<close>

record SHA256_CTX =
  initialised :: bool
  fed :: "u8 list"

text \<open>
  Modelled from the spec: the struct \<^verbatim>\<open>StellarTransaction\<close> is declared in
  \<^verbatim>\<open>stellar.h\<close>, which is not among the sources. Its fields are the ones
  \<^verbatim>\<open>stellar.c\<close> uses, with the widths the data model of the specification gives
  (\<open>operation_count\<close>, \<open>confirmed_count\<close> and \<open>account_index\<close> are 32-bit, the signer's
  public key is 32 bytes).
\<close>

record StellarTransaction =
  tx_num_operations :: u32
  confirmed_operations :: u32
  account_id :: "u8 list"
  account_index :: u32
  network_type :: u8
  xdr_offset :: u32
  sha256_ctx :: SHA256_CTX

record HDNode =
  private_key :: "u8 list"
  public_key :: "u8 list"

datatype FailureType = Failure_UnexpectedMessage | Failure_ActionCancelled

datatype dialog = OpSrcAccountDialog | CreateAccountDialog | PaymentDialog

text \<open>What a call sends to the host or puts on the screen, in the order of the calls.\<close>

datatype event =
  SendFailure FailureType "string option"
| LayoutHome
| TransactionDialog dialog
| ButtonRequest

record state =
  stellar_signing :: bool
  stellar_activeTx :: StellarTransaction
  events :: "event list"
  buttons :: "bool list"

text \<open>A null pointer that is dereferenced: the call does not return.\<close>

datatype fault = NullPointerDereference

text \<open>
  The functions of other libraries that \<^verbatim>\<open>stellar.c\<close> calls: SHA-256 of a byte
  string (\<^verbatim>\<open>sha256_Raw\<close>, and the digest that \<^verbatim>\<open>sha256_Final\<close> writes for a context
  that \<^verbatim>\<open>sha256_Init\<close> started), the digest that \<^verbatim>\<open>sha256_Final\<close> writes for a context
  that was zeroed and then fed, the context that \<^verbatim>\<open>sha256_Final\<close> leaves behind, the
  Ed25519 signature of a message under a private and a public key, the root node of the
  storage for a curve (\<open>None\<close> when the device is not initialised, the passphrase
  request is cancelled or the curve is not supported), the derivation of a private child
  key along a path (\<open>None\<close> when it returns 0) and the computation of the public key of a
  node.
\<close>

record primitives =
  sha256 :: "u8 list \<Rightarrow> u8 list"
  sha256_zeroed :: "u8 list \<Rightarrow> u8 list"
  sha256_Final_leaves :: "SHA256_CTX \<Rightarrow> SHA256_CTX"
  ed25519_sign :: "u8 list \<Rightarrow> u8 list \<Rightarrow> u8 list \<Rightarrow> u8 list"
  storage_getRootNode :: "string \<Rightarrow> bool \<Rightarrow> HDNode option"
  hdnode_private_ckd_cached :: "HDNode \<Rightarrow> u32 list \<Rightarrow> HDNode option"
  hdnode_fill_public_key :: "HDNode \<Rightarrow> HDNode"

subsection \<open>C strings\<close>

text \<open>\<^verbatim>\<open>strnlen(s, n)\<close>: the bytes of \<open>s\<close> before the first NUL, at most \<open>n\<close> of them.\<close>

definition strn :: "nat \<Rightarrow> u8 list \<Rightarrow> u8 list" where
  "strn n s = takeWhile (\<lambda>c. c \<noteq> 0) (take n s)"

definition strnlen :: "u8 list \<Rightarrow> nat \<Rightarrow> nat" where
  "strnlen s n = length (strn n s)"

definition c_literal :: "string \<Rightarrow> u8 list" where
  "c_literal s = map of_char s"

text \<open>
  \<^verbatim>\<open>strncmp(lit, s, n) == 0\<close> for a literal without NUL: both strings agree up to
  their terminator within the first \<open>n\<close> bytes.
\<close>

definition strncmp_eq :: "string \<Rightarrow> u8 list \<Rightarrow> nat \<Rightarrow> bool" where
  "strncmp_eq lit s n = (strn n (c_literal lit) = strn n s)"

subsection \<open>Hash builder\<close>

text \<open>
  Modelled from the spec: the three functions of the SHA-2 library on a context.
  \<^verbatim>\<open>sha256_Init\<close> starts a context, \<^verbatim>\<open>sha256_Update\<close> feeds it \<open>len\<close> bytes, and
  \<^verbatim>\<open>sha256_Final\<close> writes the digest and works on the context in place: it returns
  the digest and the context it leaves.
\<close>

definition sha256_Init :: SHA256_CTX where
  "sha256_Init = \<lparr>initialised = True, fed = []\<rparr>"

definition sha256_Update :: "SHA256_CTX \<Rightarrow> u8 list \<Rightarrow> nat \<Rightarrow> SHA256_CTX" where
  "sha256_Update ctx data len = ctx\<lparr>fed := fed ctx @ take len data\<rparr>"

definition sha256_Final :: "primitives \<Rightarrow> SHA256_CTX \<Rightarrow> u8 list \<times> SHA256_CTX" where
  "sha256_Final P ctx =
     (if initialised ctx then sha256 P (fed ctx) else sha256_zeroed P (fed ctx),
      sha256_Final_leaves P ctx)"

text \<open>
  Modelled from the spec: the macros \<^verbatim>\<open>REVERSE32\<close> and \<^verbatim>\<open>REVERSE64\<close> come from the
  header of the SHA-2 library, which is not among the sources. They reverse the order
  of the bytes of a word by swapping halves, then the bytes or half-words inside them.
  The firmware is built for little-endian machines, where
  \<^verbatim>\<open>BYTE_ORDER == LITTLE_ENDIAN\<close> holds and the macros are applied.
\<close>

definition REVERSE32 :: "u32 \<Rightarrow> u32" where
  "REVERSE32 w =
     (let tmp = drop_bit 16 w OR push_bit 16 w
      in drop_bit 8 (tmp AND 0xff00ff00) OR push_bit 8 (tmp AND 0x00ff00ff))"

definition REVERSE64 :: "u64 \<Rightarrow> u64" where
  "REVERSE64 w =
     (let tmp = drop_bit 32 w OR push_bit 32 w;
          tmp = drop_bit 8 (tmp AND 0xff00ff00ff00ff00) OR push_bit 8 (tmp AND 0x00ff00ff00ff00ff)
      in drop_bit 16 (tmp AND 0xffff0000ffff0000) OR push_bit 16 (tmp AND 0x0000ffff0000ffff))"

definition stellar_hashupdate_bytes :: "u8 list \<Rightarrow> nat \<Rightarrow> state \<Rightarrow> state" where
  "stellar_hashupdate_bytes data len s =
     s\<lparr>stellar_activeTx := (stellar_activeTx s)
          \<lparr>sha256_ctx := sha256_Update (sha256_ctx (stellar_activeTx s)) data len\<rparr>\<rparr>"

text \<open>The array \<^verbatim>\<open>data[4]\<close> that \<^verbatim>\<open>stellar_hashupdate_uint32\<close> fills, from index 0.\<close>

definition uint32_data :: "u32 \<Rightarrow> u8 list" where
  "uint32_data v =
     (let value = REVERSE32 v
      in [ucast (value AND 0xFF),
          ucast (drop_bit 8 value AND 0xFF),
          ucast (drop_bit 16 value AND 0xFF),
          ucast (drop_bit 24 value AND 0xFF)])"

definition stellar_hashupdate_uint32 :: "u32 \<Rightarrow> state \<Rightarrow> state" where
  "stellar_hashupdate_uint32 v s = stellar_hashupdate_bytes (uint32_data v) 4 s"

definition uint64_data :: "u64 \<Rightarrow> u8 list" where
  "uint64_data v =
     (let value = REVERSE64 v
      in [ucast (value AND 0xFF),
          ucast (drop_bit 8 value AND 0xFF),
          ucast (drop_bit 16 value AND 0xFF),
          ucast (drop_bit 24 value AND 0xFF),
          ucast (drop_bit 32 value AND 0xFF),
          ucast (drop_bit 40 value AND 0xFF),
          ucast (drop_bit 48 value AND 0xFF),
          ucast (drop_bit 56 value AND 0xFF)])"

definition stellar_hashupdate_uint64 :: "u64 \<Rightarrow> state \<Rightarrow> state" where
  "stellar_hashupdate_uint64 v s = stellar_hashupdate_bytes (uint64_data v) 8 s"

definition stellar_hashupdate_bool :: "bool \<Rightarrow> state \<Rightarrow> state" where
  "stellar_hashupdate_bool v s =
     (if v then stellar_hashupdate_uint32 1 s else stellar_hashupdate_uint32 0 s)"

definition stellar_hashupdate_string :: "u8 list \<Rightarrow> nat \<Rightarrow> state \<Rightarrow> state" where
  "stellar_hashupdate_string data len s =
     stellar_hashupdate_bytes data len (stellar_hashupdate_uint32 (of_nat len) s)"

definition stellar_hashupdate_address :: "u8 list \<Rightarrow> state \<Rightarrow> state" where
  "stellar_hashupdate_address address_bytes s =
     stellar_hashupdate_bytes address_bytes 32 (stellar_hashupdate_uint32 0 s)"

subsection \<open>CRC16 and the address codec\<close>

text \<open>
  One pass of the inner loop of \<^verbatim>\<open>stellar_crc16\<close>, for the bit \<open>bitidx\<close> of \<open>byte\<close>:
  \<open>bit\<close> and \<open>c15\<close> are the two flags, the shift is on 16 bits.
\<close>

definition crc16_bit :: "u8 \<Rightarrow> nat \<Rightarrow> u16 \<Rightarrow> u16" where
  "crc16_bit byte bitidx crc =
     (let bit = (drop_bit (7 - bitidx) byte AND 1 = 1);
          c15 = (drop_bit 15 crc AND 1 = 1);
          crc = push_bit 1 crc
      in if c15 \<noteq> bit then crc XOR 0x1021 else crc)"

function crc16_bits :: "u8 \<Rightarrow> nat \<Rightarrow> u16 \<Rightarrow> u16" where
  "crc16_bits byte bitidx crc =
     (if bitidx < 8 then crc16_bits byte (bitidx + 1) (crc16_bit byte bitidx crc) else crc)"
  by pat_completeness auto
termination
  by (relation "measure (\<lambda>(byte, bitidx, crc). 8 - bitidx)") auto

declare crc16_bits.simps [simp del]

text \<open>The outer loop, over the first \<open>len\<close> bytes at \<open>bytes\<close>, and the function.\<close>

fun crc16_bytes :: "u8 list \<Rightarrow> u16 \<Rightarrow> u16" where
  "crc16_bytes [] crc = crc"
| "crc16_bytes (byte # rest) crc = crc16_bytes rest (crc16_bits byte 0 crc)"

definition stellar_crc16 :: "u8 list \<Rightarrow> nat \<Rightarrow> u16" where
  "stellar_crc16 bytes len = crc16_bytes (take len bytes) 0x0000 AND 0xffff"

text \<open>The bits of a byte string, the most significant bit of each byte first.\<close>

definition bits_of_byte :: "u8 \<Rightarrow> bool list" where
  "bits_of_byte b = map (\<lambda>i. bit b (7 - i)) [0..<8]"

definition bits_of_bytes :: "u8 list \<Rightarrow> bool list" where
  "bits_of_bytes bs = concat (map bits_of_byte bs)"

text \<open>
  The checksum as the specification words it: a 16-bit register that starts at
  \<open>0x0000\<close> and takes the bits of the input one at a time, most significant first;
  each bit shifts the register left by one and, when the bit shifted out differs from
  the input bit, adds the polynomial \<open>0x1021\<close>. No reflection, no final XOR.
\<close>

definition crc16_shift :: "u16 \<Rightarrow> bool \<Rightarrow> u16" where
  "crc16_shift crc b = (if bit crc 15 \<noteq> b then push_bit 1 crc XOR 0x1021 else push_bit 1 crc)"

definition crc16_ccitt :: "u8 list \<Rightarrow> u16" where
  "crc16_ccitt bs = foldl crc16_shift 0 (bits_of_bytes bs)"

text \<open>
  Modelled from the spec: \<^verbatim>\<open>base32_encode\<close> and \<^verbatim>\<open>BASE32_ALPHABET_RFC4648\<close> belong to
  the cryptography library, which is not among the sources. The specification asks for
  a base32 encoder with the alphabet of RFC 4648 and no padding: the bits of the input,
  most significant first, are cut into groups of five, the last group filled with zero
  bits, and each group selects one character of the alphabet.
\<close>

definition BASE32_ALPHABET_RFC4648 :: string where
  "BASE32_ALPHABET_RFC4648 = ''ABCDEFGHIJKLMNOPQRSTUVWXYZ234567''"

fun group5 :: "bool list \<Rightarrow> bool list list" where
  "group5 (a # b # c # d # e # rest) = [a, b, c, d, e] # group5 rest"
| "group5 [] = []"
| "group5 bs = [take 5 (bs @ replicate 4 False)]"

definition bits_value :: "bool list \<Rightarrow> nat" where
  "bits_value bs = foldl (\<lambda>n b. 2 * n + (if b then 1 else 0)) 0 bs"

definition base32_encode :: "u8 list \<Rightarrow> string" where
  "base32_encode input =
     map (\<lambda>g. BASE32_ALPHABET_RFC4648 ! bits_value g) (group5 (bits_of_bytes input))"

text \<open>
  \<^verbatim>\<open>stellar_publicAddressAsStr\<close>: the 35 bytes of \<^verbatim>\<open>bytes_full\<close>, then their
  encoding. The encoder writes the string and its terminator when the buffer of
  \<open>outlen\<close> bytes holds them, and nothing otherwise (\<open>None\<close>); the function returns 56
  in both cases.
\<close>

definition bytes_full :: "u8 list \<Rightarrow> u8 list" where
  "bytes_full bytes =
     (let full = [push_bit 3 6] @ take 32 bytes;
          checksum = stellar_crc16 full 33
      in full @ [ucast (checksum AND 0x00ff), ucast (drop_bit 8 checksum AND 0x00ff)])"

definition stellar_publicAddressAsStr :: "u8 list \<Rightarrow> nat \<Rightarrow> string option \<times> nat" where
  "stellar_publicAddressAsStr bytes outlen =
     (let encoded = base32_encode (bytes_full bytes)
      in (if length encoded < outlen then Some encoded else None, 56))"

subsection \<open>Key derivation\<close>

definition stellar_deriveNode :: "primitives \<Rightarrow> u32 \<Rightarrow> HDNode option" where
  "stellar_deriveNode P idx =
     (let address_n = [0x80000000 OR 44, 0x80000000 OR 148, 0x80000000 OR idx]
      in case storage_getRootNode P ''ed25519'' True of
           None \<Rightarrow> None
         | Some node \<Rightarrow>
             (case hdnode_private_ckd_cached P node address_n of
                None \<Rightarrow> None
              | Some node \<Rightarrow> Some (hdnode_fill_public_key P node)))"

text \<open>
  \<^verbatim>\<open>stellar_getPubkeyAtIndex\<close> returns the contents of \<open>out\<close> after the call. It reads
  the node that \<^verbatim>\<open>stellar_deriveNode\<close> returns without testing it.
\<close>

definition stellar_getPubkeyAtIndex :: "primitives \<Rightarrow> u32 \<Rightarrow> u8 list \<Rightarrow> nat \<Rightarrow> fault + u8 list" where
  "stellar_getPubkeyAtIndex P idx out outlen =
     (if outlen < 32 then Inr out
      else case stellar_deriveNode P idx of
             None \<Rightarrow> Inl NullPointerDereference
           | Some node \<Rightarrow> Inr (take outlen (drop 1 (public_key node)) @ drop outlen out))"

subsection \<open>The host, the screen and the user\<close>

text \<open>
  Modelled from the spec: \<^verbatim>\<open>fsm_sendFailure\<close>, \<^verbatim>\<open>layoutHome\<close> and \<^verbatim>\<open>protectButton\<close>
  are defined in other files of the firmware. The first sends a failure with a reason
  code to the caller, the second shows the home screen, the third is the prompt of the
  specification, \<open>confirm(lines) -> accepted | rejected\<close>: it asks the user and returns
  the answer. The answers come from the list \<open>buttons\<close>; a user who is gone rejects.
\<close>

definition fsm_sendFailure :: "FailureType \<Rightarrow> string option \<Rightarrow> state \<Rightarrow> state" where
  "fsm_sendFailure failure_code failure_text s =
     s\<lparr>events := events s @ [SendFailure failure_code failure_text]\<rparr>"

definition layoutHome :: "state \<Rightarrow> state" where
  "layoutHome s = s\<lparr>events := events s @ [LayoutHome]\<rparr>"

definition protectButton :: "state \<Rightarrow> bool \<times> state" where
  "protectButton s =
     (case buttons s of
        [] \<Rightarrow> (False, s\<lparr>events := events s @ [ButtonRequest]\<rparr>)
      | b # bs \<Rightarrow> (b, s\<lparr>events := events s @ [ButtonRequest], buttons := bs\<rparr>))"

text \<open>
  \<^verbatim>\<open>stellar_layoutTransactionDialog\<close> draws five lines and the buttons. The model
  records which dialog is shown, not its pixels or its text.
\<close>

definition stellar_layoutTransactionDialog :: "dialog \<Rightarrow> state \<Rightarrow> state" where
  "stellar_layoutTransactionDialog d s = s\<lparr>events := events s @ [TransactionDialog d]\<rparr>"

subsection \<open>The signing session\<close>

text \<open>
  The functions below follow \<^verbatim>\<open>stellar.c\<close> statement by statement. The strings that
  the code composes for the dialogs (the rows of an address, an amount, the code of an
  asset) are shown to the user and take no part in the hash, the counters or the
  messages to the host; they are left out.
\<close>

definition zero_tx :: StellarTransaction where
  "zero_tx = \<lparr>tx_num_operations = 0, confirmed_operations = 0, account_id = replicate 32 0,
     account_index = 0, network_type = 0, xdr_offset = 0,
     sha256_ctx = \<lparr>initialised = False, fed = []\<rparr>\<rparr>"

definition tx_type_bytes :: "u8 list" where
  "tx_type_bytes = [0x00, 0x00, 0x00, 0x02]"

definition set_tx :: "(StellarTransaction \<Rightarrow> StellarTransaction) \<Rightarrow> state \<Rightarrow> state" where
  "set_tx f s = s\<lparr>stellar_activeTx := f (stellar_activeTx s)\<rparr>"

definition hash_timebounds :: "StellarSignTx \<Rightarrow> state \<Rightarrow> state" where
  "hash_timebounds msg s =
     (let has_timebounds = (timebounds_start msg > 0 \<or> timebounds_end msg > 0)
      in if has_timebounds then
           stellar_hashupdate_uint32 (timebounds_end msg)
             (stellar_hashupdate_uint32 0
               (stellar_hashupdate_uint32 (timebounds_start msg)
                 (stellar_hashupdate_uint32 0
                   (stellar_hashupdate_bool True s))))
         else stellar_hashupdate_bool False s)"

definition hash_memo :: "StellarSignTx \<Rightarrow> state \<Rightarrow> state" where
  "hash_memo msg s =
     (let s = stellar_hashupdate_uint32 (memo_type msg) s
      in if memo_type msg = 0 then s
         else if memo_type msg = 1 then
           stellar_hashupdate_string (memo_text msg) (strnlen (memo_text msg) 28) s
         else if memo_type msg = 2 then stellar_hashupdate_uint64 (memo_id msg) s
         else if memo_type msg = 3 \<or> memo_type msg = 4 then
           stellar_hashupdate_bytes (pb_bytes (memo_hash msg)) (pb_size (memo_hash msg)) s
         else s)"

definition set_network_type :: "StellarSignTx \<Rightarrow> state \<Rightarrow> state" where
  "set_network_type msg s =
     (if strncmp_eq ''Public Global Stellar Network ; September 2015'' (network_passphrase msg) 1024
      then set_tx (\<lambda>tx. tx\<lparr>network_type := 1\<rparr>) s
      else if strncmp_eq ''Test SDF Network ; September 2015'' (network_passphrase msg) 1024
      then set_tx (\<lambda>tx. tx\<lparr>network_type := 2\<rparr>) s
      else set_tx (\<lambda>tx. tx\<lparr>network_type := 3\<rparr>) s)"

definition stellar_signingInit :: "primitives \<Rightarrow> StellarSignTx \<Rightarrow> state \<Rightarrow> fault + state" where
  "stellar_signingInit P msg s =
     (let s = s\<lparr>stellar_activeTx := zero_tx\<rparr>;
          s = s\<lparr>stellar_signing := True\<rparr>;
          s = set_tx (\<lambda>tx. tx\<lparr>sha256_ctx := sha256_Init\<rparr>) s;
          network_hash = sha256 P (take (strnlen (network_passphrase msg) 1024) (network_passphrase msg));
          s = set_tx (\<lambda>tx. tx\<lparr>tx_num_operations := num_operations msg\<rparr>) s;
          s = stellar_hashupdate_bytes network_hash 32 s;
          s = stellar_hashupdate_bytes tx_type_bytes 4 s
      in case stellar_getPubkeyAtIndex P (index msg) (replicate 32 0) 32 of
           Inl f \<Rightarrow> Inl f
         | Inr bytes_pubkey \<Rightarrow>
             (let s = set_tx (\<lambda>tx. tx\<lparr>account_id := take 32 bytes_pubkey\<rparr>) s;
                  s = set_tx (\<lambda>tx. tx\<lparr>account_index := index msg\<rparr>) s;
                  s = stellar_hashupdate_address bytes_pubkey s;
                  s = stellar_hashupdate_uint32 (fee msg) s;
                  s = stellar_hashupdate_uint64 (sequence_number msg) s;
                  s = hash_timebounds msg s;
                  s = hash_memo msg s;
                  s = stellar_hashupdate_uint32 (num_operations msg) s
              in Inr (set_network_type msg s)))"

definition stellar_signingAbort :: "state \<Rightarrow> state" where
  "stellar_signingAbort s =
     layoutHome (fsm_sendFailure Failure_ActionCancelled None (s\<lparr>stellar_signing := False\<rparr>))"

definition stellar_allOperationsConfirmed :: "state \<Rightarrow> bool" where
  "stellar_allOperationsConfirmed s =
     (confirmed_operations (stellar_activeTx s) = tx_num_operations (stellar_activeTx s))"

definition stellar_confirmCreateAccountOp :: "StellarTxOpAck \<Rightarrow> state \<Rightarrow> state" where
  "stellar_confirmCreateAccountOp msg s =
     (let s = stellar_hashupdate_address (pb_bytes (destination_account msg)) s;
          s = stellar_hashupdate_uint64 (amount msg) s;
          s = stellar_layoutTransactionDialog CreateAccountDialog s;
          (ok, s) = protectButton s
      in if \<not> ok then stellar_signingAbort s
         else set_tx (\<lambda>tx. tx\<lparr>confirmed_operations := confirmed_operations tx + 1\<rparr>) s)"

definition hash_asset :: "StellarAssetType \<Rightarrow> state \<Rightarrow> state" where
  "hash_asset a s =
     (let s = (if asset_type a = 0 then stellar_hashupdate_uint32 (asset_type a) s else s);
          s = (if asset_type a = 1 then stellar_hashupdate_bytes (code a) 4 s else s);
          s = (if asset_type a = 2 then stellar_hashupdate_bytes (code a) 12 s else s)
      in if asset_type a = 1 \<or> asset_type a = 2
         then stellar_hashupdate_bytes (pb_bytes (issuer a)) (pb_size (issuer a)) s
         else s)"

definition stellar_confirmPaymentOp :: "StellarTxOpAck \<Rightarrow> state \<Rightarrow> state" where
  "stellar_confirmPaymentOp msg s =
     (let s = stellar_hashupdate_address (pb_bytes (destination_account msg)) s;
          s = hash_asset (asset msg) s;
          s = stellar_hashupdate_uint64 (amount msg) s;
          s = stellar_layoutTransactionDialog PaymentDialog s;
          (ok, s) = protectButton s
      in if \<not> ok then stellar_signingAbort s
         else set_tx (\<lambda>tx. tx\<lparr>confirmed_operations := confirmed_operations tx + 1\<rparr>) s)"

text \<open>
  The first part of \<^verbatim>\<open>stellar_addOperation\<close>, up to the hash of the source account:
  \<open>Inl\<close> is the early return after the user has rejected the source account.
\<close>

definition hash_source_account :: "StellarTxOpAck \<Rightarrow> state \<Rightarrow> state + state" where
  "hash_source_account msg s =
     (if pb_size (source_account msg) > 0 then
        (let s = stellar_layoutTransactionDialog OpSrcAccountDialog s;
             (ok, s) = protectButton s
         in if \<not> ok then Inl (stellar_signingAbort s)
            else Inr (stellar_hashupdate_address (pb_bytes (source_account msg)) s))
      else Inr (stellar_hashupdate_bool False s))"

definition stellar_addOperation :: "StellarTxOpAck \<Rightarrow> state \<Rightarrow> state" where
  "stellar_addOperation msg s =
     (if \<not> stellar_signing s then
        layoutHome (fsm_sendFailure Failure_UnexpectedMessage (Some ''Not in Stellar signing mode'') s)
      else case hash_source_account msg s of
             Inl s \<Rightarrow> s
           | Inr s \<Rightarrow>
               (let s = stellar_hashupdate_uint32 (op_type msg) s;
                    s = (if op_type msg = 0 then stellar_confirmCreateAccountOp msg s else s);
                    s = (if op_type msg = 1 then stellar_confirmPaymentOp msg s else s)
                in if stellar_allOperationsConfirmed s then stellar_hashupdate_uint32 0 s else s))"

text \<open>
  \<^verbatim>\<open>stellar_getSignatureForActiveTx\<close> returns the 64 bytes copied to
  \<open>out_signature\<close>. \<^verbatim>\<open>sha256_Final\<close> receives the address of the context of the
  transaction, so the context it leaves is the context of the transaction from then
  on. The node is read without a test.
\<close>

definition stellar_getSignatureForActiveTx :: "primitives \<Rightarrow> state \<Rightarrow> fault + u8 list \<times> state" where
  "stellar_getSignatureForActiveTx P s =
     (let node = stellar_deriveNode P (account_index (stellar_activeTx s));
          (to_sign, ctx) = sha256_Final P (sha256_ctx (stellar_activeTx s));
          s = set_tx (\<lambda>tx. tx\<lparr>sha256_ctx := ctx\<rparr>) s
      in case node of
           None \<Rightarrow> Inl NullPointerDereference
         | Some node \<Rightarrow>
             (let signature = ed25519_sign P (take 32 to_sign) (private_key node) (drop 1 (public_key node))
              in Inr (take 64 signature, s)))"

subsection \<open>Observations on a state\<close>

text \<open>
  The bytes fed to the context of the hash since it was started or zeroed, the two
  counters, and the session proper.
\<close>

definition hashed :: "state \<Rightarrow> u8 list" where
  "hashed s = fed (sha256_ctx (stellar_activeTx s))"

definition nops :: "state \<Rightarrow> u32" where
  "nops s = tx_num_operations (stellar_activeTx s)"

definition confirmed :: "state \<Rightarrow> u32" where
  "confirmed s = confirmed_operations (stellar_activeTx s)"

definition session :: "state \<Rightarrow> bool \<times> StellarTransaction" where
  "session s = (stellar_signing s, stellar_activeTx s)"

text \<open>The answer the user gives to the next prompt.\<close>

definition answer :: "state \<Rightarrow> bool" where
  "answer s = (case buttons s of [] \<Rightarrow> False | b # bs \<Rightarrow> b)"

text \<open>Two compound steps that the functions repeat: feeding bytes, and asking the user.\<close>

definition append_hash :: "u8 list \<Rightarrow> state \<Rightarrow> state" where
  "append_hash bs s =
     s\<lparr>stellar_activeTx := (stellar_activeTx s)
          \<lparr>sha256_ctx := (sha256_ctx (stellar_activeTx s))
              \<lparr>fed := fed (sha256_ctx (stellar_activeTx s)) @ bs\<rparr>\<rparr>\<rparr>"

definition ask :: "dialog \<Rightarrow> state \<Rightarrow> state" where
  "ask d s = snd (protectButton (stellar_layoutTransactionDialog d s))"

definition confirm_op :: "state \<Rightarrow> state" where
  "confirm_op s = set_tx (\<lambda>tx. tx\<lparr>confirmed_operations := confirmed_operations tx + 1\<rparr>) s"

subsection \<open>The encoding the network expects\<close>

text \<open>Big-endian bytes of a 32-bit and a 64-bit integer.\<close>

definition be32 :: "u32 \<Rightarrow> u8 list" where
  "be32 v = [ucast (drop_bit 24 v), ucast (drop_bit 16 v), ucast (drop_bit 8 v), ucast v]"

definition be64 :: "u64 \<Rightarrow> u8 list" where
  "be64 v = [ucast (drop_bit 56 v), ucast (drop_bit 48 v), ucast (drop_bit 40 v),
     ucast (drop_bit 32 v), ucast (drop_bit 24 v), ucast (drop_bit 16 v),
     ucast (drop_bit 8 v), ucast v]"

text \<open>The public key of a node without its leading byte.\<close>

definition node_pubkey :: "HDNode \<Rightarrow> u8 list" where
  "node_pubkey node = take 32 (drop 1 (public_key node))"

text \<open>
  The bytes of a header, in three parts: up to the time bounds, the memo, the number
  of operations.
\<close>

definition timebounds_bytes :: "StellarSignTx \<Rightarrow> u8 list" where
  "timebounds_bytes msg =
     (if timebounds_start msg > 0 \<or> timebounds_end msg > 0
      then be32 1 @ be32 0 @ be32 (timebounds_start msg) @ be32 0 @ be32 (timebounds_end msg)
      else be32 0)"

definition header_start_bytes :: "primitives \<Rightarrow> StellarSignTx \<Rightarrow> u8 list \<Rightarrow> u8 list" where
  "header_start_bytes P msg pubkey =
     take 32 (sha256 P (strn 1024 (network_passphrase msg))) @ [0x00, 0x00, 0x00, 0x02] @
     be32 0 @ take 32 pubkey @ be32 (fee msg) @ be64 (sequence_number msg) @
     timebounds_bytes msg"

definition memo_bytes :: "StellarSignTx \<Rightarrow> u8 list" where
  "memo_bytes msg =
     be32 (memo_type msg) @
     (if memo_type msg = 0 then []
      else if memo_type msg = 1 then
        be32 (of_nat (strnlen (memo_text msg) 28)) @ take (strnlen (memo_text msg) 28) (memo_text msg)
      else if memo_type msg = 2 then be64 (memo_id msg)
      else if memo_type msg = 3 \<or> memo_type msg = 4 then
        take (pb_size (memo_hash msg)) (pb_bytes (memo_hash msg))
      else [])"

definition header_bytes :: "primitives \<Rightarrow> StellarSignTx \<Rightarrow> u8 list \<Rightarrow> u8 list" where
  "header_bytes P msg pubkey =
     header_start_bytes P msg pubkey @ memo_bytes msg @ be32 (num_operations msg)"

definition network_kind :: "StellarSignTx \<Rightarrow> u8" where
  "network_kind msg =
     (if strncmp_eq ''Public Global Stellar Network ; September 2015'' (network_passphrase msg) 1024 then 1
      else if strncmp_eq ''Test SDF Network ; September 2015'' (network_passphrase msg) 1024 then 2
      else 3)"

text \<open>The bytes that the two operations feed, as the code feeds them.\<close>

definition create_account_bytes :: "StellarTxOpAck \<Rightarrow> u8 list" where
  "create_account_bytes msg =
     be32 0 @ take 32 (pb_bytes (destination_account msg)) @ be64 (amount msg)"

definition asset_bytes :: "StellarAssetType \<Rightarrow> u8 list" where
  "asset_bytes a =
     (if asset_type a = 0 then be32 0
      else if asset_type a = 1 then take 4 (code a) @ take (pb_size (issuer a)) (pb_bytes (issuer a))
      else if asset_type a = 2 then take 12 (code a) @ take (pb_size (issuer a)) (pb_bytes (issuer a))
      else [])"

definition payment_bytes :: "StellarTxOpAck \<Rightarrow> u8 list" where
  "payment_bytes msg =
     be32 0 @ take 32 (pb_bytes (destination_account msg)) @ asset_bytes (asset msg) @ be64 (amount msg)"

text \<open>The four zero bytes that close the envelope, fed when the two counters agree.\<close>

definition trailer :: "state \<Rightarrow> u8 list" where
  "trailer s = (if confirmed s = nops s then be32 0 else [])"

subsection \<open>Example inputs\<close>

text \<open>
  Stand-ins for the primitives, for running the model on examples: a digest of 32
  bytes that depends on the length of the input only, a finalization that leaves the
  context zeroed, a signature of the digest
  followed by the private key, and a storage that holds a key for Ed25519; then the
  same with a storage that is locked, and with a derivation of the child key that
  fails.
\<close>

definition example_primitives :: primitives where
  "example_primitives =
     \<lparr>sha256 = (\<lambda>data. replicate 32 (of_nat (length data))),
      sha256_zeroed = (\<lambda>data. replicate 32 0),
      sha256_Final_leaves = (\<lambda>ctx. \<lparr>initialised = False, fed = []\<rparr>),
      ed25519_sign = (\<lambda>msg sk pk. msg @ sk),
      storage_getRootNode = (\<lambda>curve use_passphrase.
        if curve = ''ed25519'' then Some \<lparr>private_key = replicate 32 7, public_key = replicate 33 0\<rparr>
        else None),
      hdnode_private_ckd_cached = (\<lambda>node address_n.
        Some (node\<lparr>private_key := replicate 32 (ucast (last address_n))\<rparr>)),
      hdnode_fill_public_key = (\<lambda>node. node\<lparr>public_key := 1 # private_key node\<rparr>)\<rparr>"

definition locked_primitives :: primitives where
  "locked_primitives = example_primitives\<lparr>storage_getRootNode := (\<lambda>curve use_passphrase. None)\<rparr>"

definition failing_ckd_primitives :: primitives where
  "failing_ckd_primitives = example_primitives\<lparr>hdnode_private_ckd_cached := (\<lambda>node address_n. None)\<rparr>"

definition example_node :: HDNode where
  "example_node = \<lparr>private_key = replicate 32 0, public_key = 1 # replicate 32 0\<rparr>"

definition idle_state :: state where
  "idle_state = \<lparr>stellar_signing = False, stellar_activeTx = zero_tx, events = [], buttons = []\<rparr>"

text \<open>
  A header for the public network: fee 100, sequence number 1, no time bounds, no
  memo, one operation. The second header has a memo type that no case of the switch
  names.
\<close>

definition example_header :: StellarSignTx where
  "example_header =
     \<lparr>network_passphrase = c_literal ''Public Global Stellar Network ; September 2015'' @ [0],
      index = 0, fee = 100, sequence_number = 1, timebounds_start = 0, timebounds_end = 0,
      memo_type = 0, memo_text = [], memo_id = 0,
      memo_hash = \<lparr>pb_size = 0, pb_bytes = replicate 32 0\<rparr>, num_operations = 1\<rparr>"

definition example_header_memo5 :: StellarSignTx where
  "example_header_memo5 =
     example_header\<lparr>memo_type := 5, memo_text := c_literal ''hello'' @ [0], memo_id := 77,
       memo_hash := \<lparr>pb_size = 32, pb_bytes = replicate 32 8\<rparr>\<rparr>"

definition example_header_hashed :: "u8 list" where
  "example_header_hashed =
     replicate 32 46 @ [0, 0, 0, 2] @ [0, 0, 0, 0] @ replicate 32 0 @ [0, 0, 0, 100] @
     [0, 0, 0, 0, 0, 0, 0, 1] @ [0, 0, 0, 0] @ [0, 0, 0, 0] @ [0, 0, 0, 1]"

text \<open>The session that the example header opens from the idle state.\<close>

definition example_session :: state where
  "example_session =
     \<lparr>stellar_signing = True,
      stellar_activeTx = \<lparr>tx_num_operations = 1, confirmed_operations = 0,
        account_id = replicate 32 0, account_index = 0, network_type = 1, xdr_offset = 0,
        sha256_ctx = \<lparr>initialised = True, fed = example_header_hashed\<rparr>\<rparr>,
      events = [], buttons = []\<rparr>"

text \<open>
  Four operations: a CreateAccount of 5 XLM, a Payment of an asset with a code of
  four characters, and an operation of type 5 with and without a source account.
\<close>

definition example_create_account :: StellarTxOpAck where
  "example_create_account =
     \<lparr>source_account = \<lparr>pb_size = 0, pb_bytes = replicate 32 0\<rparr>, op_type = 0,
      destination_account = \<lparr>pb_size = 32, pb_bytes = replicate 32 5\<rparr>, amount = 50000000,
      asset = \<lparr>asset_type = 0, code = replicate 12 0,
        issuer = \<lparr>pb_size = 0, pb_bytes = replicate 32 0\<rparr>\<rparr>\<rparr>"

definition example_payment :: StellarTxOpAck where
  "example_payment =
     \<lparr>source_account = \<lparr>pb_size = 0, pb_bytes = replicate 32 0\<rparr>, op_type = 1,
      destination_account = \<lparr>pb_size = 32, pb_bytes = replicate 32 5\<rparr>, amount = 50000000,
      asset = \<lparr>asset_type = 1, code = c_literal ''USD'' @ replicate 9 0,
        issuer = \<lparr>pb_size = 32, pb_bytes = replicate 32 9\<rparr>\<rparr>\<rparr>"

definition example_other_op :: StellarTxOpAck where
  "example_other_op =
     \<lparr>source_account = \<lparr>pb_size = 32, pb_bytes = replicate 32 3\<rparr>, op_type = 5,
      destination_account = \<lparr>pb_size = 0, pb_bytes = replicate 32 0\<rparr>, amount = 0,
      asset = \<lparr>asset_type = 0, code = replicate 12 0,
        issuer = \<lparr>pb_size = 0, pb_bytes = replicate 32 0\<rparr>\<rparr>\<rparr>"

definition example_other_op_no_source :: StellarTxOpAck where
  "example_other_op_no_source =
     example_other_op\<lparr>source_account := \<lparr>pb_size = 0, pb_bytes = replicate 32 0\<rparr>\<rparr>"

text \<open>
  The example session after the user has confirmed its one operation, the
  CreateAccount (lemma \<open>example_confirmed_reached\<close>).
\<close>

definition example_confirmed :: state where
  "example_confirmed =
     \<lparr>stellar_signing = True,
      stellar_activeTx = \<lparr>tx_num_operations = 1, confirmed_operations = 1,
        account_id = replicate 32 0, account_index = 0, network_type = 1, xdr_offset = 0,
        sha256_ctx = \<lparr>initialised = True,
          fed = example_header_hashed @ [0, 0, 0, 0] @ [0, 0, 0, 0] @ [0, 0, 0, 0] @
            replicate 32 5 @ [0, 0, 0, 0, 2, 250, 240, 128] @ [0, 0, 0, 0]\<rparr>\<rparr>,
      events = [TransactionDialog CreateAccountDialog, ButtonRequest], buttons = []\<rparr>"


section \<open>Lemmas\<close>

subsection \<open>The hash builder writes big-endian\<close>

lemma lt8_cases:
  "bitidx < 8 \<Longrightarrow> bitidx \<in> {7, 6, 5, 4, 3, 2, 1, 0 :: nat}"
  by auto

lemma high_bit32: "32 \<le> n \<Longrightarrow> \<not> bit (v :: u32) n"
  by (auto dest: bit_imp_le_length)

lemma high_bit64: "64 \<le> n \<Longrightarrow> \<not> bit (v :: u64) n"
  by (auto dest: bit_imp_le_length)

lemma uint32_data_be32: "uint32_data v = be32 v"
  unfolding uint32_data_def REVERSE32_def Let_def be32_def
  apply simp
  apply (intro conjI; rule bit_word_eqI; simp add: bit_simps high_bit32)
  apply (drule lt8_cases; elim insertE emptyE; simp)+
  done

lemma uint64_data_be64: "uint64_data v = be64 v"
  unfolding uint64_data_def REVERSE64_def Let_def be64_def
  apply simp
  apply (intro conjI; rule bit_word_eqI; simp add: bit_simps high_bit64)
  apply (drule lt8_cases; elim insertE emptyE; simp)+
  done

lemma length_be32 [simp]: "length (be32 v) = 4"
  by (simp add: be32_def)

lemma length_be64 [simp]: "length (be64 v) = 8"
  by (simp add: be64_def)

lemma hashupdate_bytes_append: "stellar_hashupdate_bytes data len s = append_hash (take len data) s"
  by (simp add: stellar_hashupdate_bytes_def append_hash_def sha256_Update_def)

lemma hashupdate_uint32_append: "stellar_hashupdate_uint32 v s = append_hash (be32 v) s"
  by (simp add: stellar_hashupdate_uint32_def hashupdate_bytes_append uint32_data_be32)

lemma hashupdate_uint64_append: "stellar_hashupdate_uint64 v s = append_hash (be64 v) s"
  by (simp add: stellar_hashupdate_uint64_def hashupdate_bytes_append uint64_data_be64)

lemma hashupdate_bool_append:
  "stellar_hashupdate_bool v s = append_hash (be32 (if v then 1 else 0)) s"
  by (simp add: stellar_hashupdate_bool_def hashupdate_uint32_append)

lemma append_hash_append [simp]: "append_hash b (append_hash a s) = append_hash (a @ b) s"
  by (simp add: append_hash_def)

lemma hashupdate_string_append:
  "stellar_hashupdate_string data len s = append_hash (be32 (of_nat len) @ take len data) s"
  by (simp add: stellar_hashupdate_string_def hashupdate_bytes_append hashupdate_uint32_append)

lemma hashupdate_address_append:
  "stellar_hashupdate_address a s = append_hash (be32 0 @ take 32 a) s"
  by (simp add: stellar_hashupdate_address_def hashupdate_bytes_append hashupdate_uint32_append)

lemmas hashupdate_append = hashupdate_bytes_append hashupdate_uint32_append
  hashupdate_uint64_append hashupdate_bool_append hashupdate_string_append
  hashupdate_address_append

lemma append_hash_fields [simp]:
  "hashed (append_hash bs s) = hashed s @ bs"
  "stellar_signing (append_hash bs s) = stellar_signing s"
  "events (append_hash bs s) = events s"
  "buttons (append_hash bs s) = buttons s"
  "nops (append_hash bs s) = nops s"
  "confirmed (append_hash bs s) = confirmed s"
  "answer (append_hash bs s) = answer s"
  by (simp_all add: append_hash_def hashed_def nops_def confirmed_def answer_def)

subsection \<open>The header step\<close>

lemma hash_timebounds_append: "hash_timebounds msg s = append_hash (timebounds_bytes msg) s"
  by (simp add: hash_timebounds_def timebounds_bytes_def hashupdate_append)

lemma hash_memo_append: "hash_memo msg s = append_hash (memo_bytes msg) s"
  by (simp add: hash_memo_def memo_bytes_def hashupdate_append Let_def)

lemma take_strnlen: "take (strnlen s n) s = strn n s"
proof -
  have "strn n s = take (length (strn n s)) (take n s)"
    unfolding strn_def by (rule takeWhile_eq_take)
  moreover have "length (strn n s) \<le> n"
    unfolding strn_def by (rule order_trans [OF length_takeWhile_le]) simp
  ultimately show ?thesis
    by (simp add: strnlen_def min_def)
qed

lemma signingInit_fault:
  "stellar_deriveNode P (index msg) = None \<Longrightarrow>
   stellar_signingInit P msg s = Inl NullPointerDereference"
  by (simp add: stellar_signingInit_def stellar_getPubkeyAtIndex_def Let_def)

lemma signingInit_result:
  assumes "stellar_deriveNode P (index msg) = Some node"
  shows "stellar_signingInit P msg s =
     Inr \<lparr>stellar_signing = True,
          stellar_activeTx = \<lparr>tx_num_operations = num_operations msg, confirmed_operations = 0,
            account_id = node_pubkey node, account_index = index msg,
            network_type = network_kind msg, xdr_offset = 0,
            sha256_ctx = \<lparr>initialised = True, fed = header_bytes P msg (node_pubkey node)\<rparr>\<rparr>,
          events = events s, buttons = buttons s\<rparr>"
proof -
  have pk: "stellar_getPubkeyAtIndex P (index msg) (replicate 32 0) 32 = Inr (node_pubkey node)"
    using assms by (simp add: stellar_getPubkeyAtIndex_def node_pubkey_def)
  have net: "set_network_type msg t = set_tx (\<lambda>tx. tx\<lparr>network_type := network_kind msg\<rparr>) t" for t
    by (simp add: set_network_type_def network_kind_def)
  show ?thesis
    unfolding stellar_signingInit_def Let_def pk sum.case net hashupdate_append
      hash_timebounds_append hash_memo_append take_strnlen
    by (simp add: set_tx_def append_hash_def zero_tx_def header_bytes_def header_start_bytes_def
        node_pubkey_def tx_type_bytes_def sha256_Init_def)
qed

lemma signingInit_Inr:
  assumes "stellar_signingInit P msg s = Inr s'"
  obtains node where "stellar_deriveNode P (index msg) = Some node"
    and "hashed s' = header_bytes P msg (node_pubkey node)"
    and "confirmed s' = 0" and "nops s' = num_operations msg"
proof (cases "stellar_deriveNode P (index msg)")
  case None
  with assms show ?thesis by (simp add: signingInit_fault)
next
  case (Some node)
  from assms signingInit_result [OF Some, of s]
  have "hashed s' = header_bytes P msg (node_pubkey node) \<and> confirmed s' = 0 \<and>
      nops s' = num_operations msg"
    by (auto simp: hashed_def confirmed_def nops_def)
  with Some that show ?thesis by blast
qed

subsection \<open>The operation step\<close>

lemma protectButton_fields:
  "fst (protectButton s) = answer s"
  "events (snd (protectButton s)) = events s @ [ButtonRequest]"
  "buttons (snd (protectButton s)) = tl (buttons s)"
  "stellar_signing (snd (protectButton s)) = stellar_signing s"
  "stellar_activeTx (snd (protectButton s)) = stellar_activeTx s"
  by (simp_all add: protectButton_def answer_def split: list.split)

lemma layoutTransactionDialog_fields:
  "events (stellar_layoutTransactionDialog d s) = events s @ [TransactionDialog d]"
  "buttons (stellar_layoutTransactionDialog d s) = buttons s"
  "stellar_signing (stellar_layoutTransactionDialog d s) = stellar_signing s"
  "stellar_activeTx (stellar_layoutTransactionDialog d s) = stellar_activeTx s"
  by (simp_all add: stellar_layoutTransactionDialog_def)

lemma signingAbort_fields:
  "stellar_signing (stellar_signingAbort s) = False"
  "events (stellar_signingAbort s) = events s @ [SendFailure Failure_ActionCancelled None, LayoutHome]"
  "buttons (stellar_signingAbort s) = buttons s"
  "stellar_activeTx (stellar_signingAbort s) = stellar_activeTx s"
  "hashed (stellar_signingAbort s) = hashed s"
  "nops (stellar_signingAbort s) = nops s"
  "confirmed (stellar_signingAbort s) = confirmed s"
  by (simp_all add: stellar_signingAbort_def layoutHome_def fsm_sendFailure_def hashed_def
      nops_def confirmed_def)

lemma ask_fields:
  "events (ask d s) = events s @ [TransactionDialog d, ButtonRequest]"
  "buttons (ask d s) = tl (buttons s)"
  "stellar_signing (ask d s) = stellar_signing s"
  "stellar_activeTx (ask d s) = stellar_activeTx s"
  "hashed (ask d s) = hashed s"
  "nops (ask d s) = nops s"
  "confirmed (ask d s) = confirmed s"
  by (simp_all add: ask_def protectButton_fields layoutTransactionDialog_fields hashed_def
      nops_def confirmed_def)

lemma answer_dialog: "fst (protectButton (stellar_layoutTransactionDialog d s)) = answer s"
  by (simp add: protectButton_fields answer_def layoutTransactionDialog_fields)

lemma confirm_op_fields:
  "events (confirm_op s) = events s"
  "buttons (confirm_op s) = buttons s"
  "stellar_signing (confirm_op s) = stellar_signing s"
  "hashed (confirm_op s) = hashed s"
  "nops (confirm_op s) = nops s"
  "confirmed (confirm_op s) = confirmed s + 1"
  by (simp_all add: confirm_op_def set_tx_def hashed_def nops_def confirmed_def)

lemmas step_fields = ask_fields confirm_op_fields signingAbort_fields

lemma hash_asset_append: "hash_asset a s = append_hash (asset_bytes a) s"
  by (auto simp: hash_asset_def asset_bytes_def hashupdate_append Let_def append_hash_def)

lemma confirmCreateAccountOp_eq:
  "stellar_confirmCreateAccountOp msg s =
     (let s' = ask CreateAccountDialog (append_hash (create_account_bytes msg) s)
      in if answer s then confirm_op s' else stellar_signingAbort s')"
  by (simp add: stellar_confirmCreateAccountOp_def hashupdate_append create_account_bytes_def
      Let_def split_beta ask_def answer_dialog confirm_op_def)

lemma confirmPaymentOp_eq:
  "stellar_confirmPaymentOp msg s =
     (let s' = ask PaymentDialog (append_hash (payment_bytes msg) s)
      in if answer s then confirm_op s' else stellar_signingAbort s')"
  by (simp add: stellar_confirmPaymentOp_def hashupdate_append hash_asset_append payment_bytes_def
      Let_def split_beta ask_def answer_dialog confirm_op_def)

lemma confirmPaymentOp_hashed:
  "hashed (stellar_confirmPaymentOp msg s) = hashed s @ payment_bytes msg"
  by (simp add: confirmPaymentOp_eq Let_def step_fields)

lemma hash_source_account_eq:
  "hash_source_account msg s =
     (if pb_size (source_account msg) > 0 then
        (if answer s
         then Inr (append_hash (be32 0 @ take 32 (pb_bytes (source_account msg)))
                (ask OpSrcAccountDialog s))
         else Inl (stellar_signingAbort (ask OpSrcAccountDialog s)))
      else Inr (append_hash (be32 0) s))"
  by (simp add: hash_source_account_def hashupdate_append Let_def split_beta ask_def answer_dialog)

lemma confirmCreateAccountOp_counts:
  "nops (stellar_confirmCreateAccountOp msg s) = nops s"
  "confirmed (stellar_confirmCreateAccountOp msg s) =
     (if answer s then confirmed s + 1 else confirmed s)"
  by (simp_all add: confirmCreateAccountOp_eq Let_def step_fields)

lemma confirmPaymentOp_counts:
  "nops (stellar_confirmPaymentOp msg s) = nops s"
  "confirmed (stellar_confirmPaymentOp msg s) =
     (if answer s then confirmed s + 1 else confirmed s)"
  by (simp_all add: confirmPaymentOp_eq Let_def step_fields)

lemma hash_source_account_counts:
  "hash_source_account msg s = Inl t \<Longrightarrow> nops t = nops s \<and> confirmed t = confirmed s"
  "hash_source_account msg s = Inr t \<Longrightarrow> nops t = nops s \<and> confirmed t = confirmed s"
  by (auto simp: hash_source_account_eq step_fields split: if_splits)

lemma allOperationsConfirmed_eq: "stellar_allOperationsConfirmed s = (confirmed s = nops s)"
  by (simp add: stellar_allOperationsConfirmed_def confirmed_def nops_def)

lemma addOperation_idle:
  "\<not> stellar_signing s \<Longrightarrow>
   stellar_addOperation msg s =
     s\<lparr>events := events s @
        [SendFailure Failure_UnexpectedMessage (Some ''Not in Stellar signing mode''), LayoutHome]\<rparr>"
  by (simp add: stellar_addOperation_def layoutHome_def fsm_sendFailure_def)

lemma addOperation_nops: "nops (stellar_addOperation msg s) = nops s"
proof (cases "stellar_signing s")
  case False
  then show ?thesis by (simp add: addOperation_idle nops_def)
next
  case True
  then show ?thesis
    by (auto simp: stellar_addOperation_def Let_def hashupdate_append confirmCreateAccountOp_counts
        confirmPaymentOp_counts dest: hash_source_account_counts split: sum.split)
qed

lemma addOperation_confirmed:
  "confirmed (stellar_addOperation msg s) = confirmed s \<or>
   confirmed (stellar_addOperation msg s) = confirmed s + 1"
proof (cases "stellar_signing s")
  case False
  then show ?thesis by (simp add: addOperation_idle confirmed_def)
next
  case True
  then show ?thesis
    by (auto simp: stellar_addOperation_def Let_def hashupdate_append confirmCreateAccountOp_counts
        confirmPaymentOp_counts dest: hash_source_account_counts split: sum.split)
qed

lemma addOperation_other:
  assumes "stellar_signing s" and "op_type msg \<noteq> 0" and "op_type msg \<noteq> 1"
  shows "stellar_addOperation msg s =
    (if pb_size (source_account msg) = 0
     then append_hash (be32 0 @ be32 (op_type msg) @ trailer s) s
     else if answer s
     then append_hash (be32 0 @ take 32 (pb_bytes (source_account msg)) @ be32 (op_type msg) @ trailer s)
            (ask OpSrcAccountDialog s)
     else stellar_signingAbort (ask OpSrcAccountDialog s))"
  using assms
  by (simp add: stellar_addOperation_def hash_source_account_eq Let_def hashupdate_append
      allOperationsConfirmed_eq trailer_def step_fields)

text \<open>
  The header step leaves a context that \<^verbatim>\<open>sha256_Init\<close> started, and processing an
  operation keeps it so.
\<close>

lemma signingInit_initialised:
  assumes "stellar_signingInit P msg s = Inr s'"
  shows "initialised (sha256_ctx (stellar_activeTx s'))"
proof (cases "stellar_deriveNode P (index msg)")
  case None
  with assms show ?thesis by (simp add: signingInit_fault)
next
  case (Some node)
  from assms signingInit_result [OF Some, of s] show ?thesis by auto
qed

lemma append_hash_initialised:
  "initialised (sha256_ctx (stellar_activeTx (append_hash bs s))) =
     initialised (sha256_ctx (stellar_activeTx s))"
  by (simp add: append_hash_def)

lemma confirm_op_initialised:
  "initialised (sha256_ctx (stellar_activeTx (confirm_op s))) =
     initialised (sha256_ctx (stellar_activeTx s))"
  by (simp add: confirm_op_def set_tx_def)

lemma addOperation_initialised:
  "initialised (sha256_ctx (stellar_activeTx (stellar_addOperation msg s))) =
     initialised (sha256_ctx (stellar_activeTx s))"
proof (cases "stellar_signing s")
  case False
  then show ?thesis by (simp add: addOperation_idle)
next
  case True
  then show ?thesis
    by (simp add: stellar_addOperation_def hash_source_account_eq confirmCreateAccountOp_eq
        confirmPaymentOp_eq Let_def hashupdate_append append_hash_initialised
        confirm_op_initialised step_fields)
qed

subsection \<open>The checksum and the encoder\<close>

lemma crc16_bit_shift: "crc16_bit byte bitidx crc = crc16_shift crc (bit byte (7 - bitidx))"
  by (simp add: crc16_bit_def crc16_shift_def Let_def bit_iff_and_drop_bit_eq_1)

lemma crc16_bits_foldl:
  "crc16_bits byte bitidx crc = foldl crc16_shift crc (map (\<lambda>i. bit byte (7 - i)) [bitidx..<8])"
proof (induction byte bitidx crc rule: crc16_bits.induct)
  case (1 byte bitidx crc)
  show ?case
  proof (cases "bitidx < 8")
    case True
    then have "crc16_bits byte bitidx crc = crc16_bits byte (bitidx + 1) (crc16_bit byte bitidx crc)"
      by (subst crc16_bits.simps) simp
    also have "\<dots> = foldl crc16_shift (crc16_bit byte bitidx crc)
        (map (\<lambda>i. bit byte (7 - i)) [bitidx + 1..<8])"
      using True by (rule "1.IH")
    also have "\<dots> = foldl crc16_shift crc (map (\<lambda>i. bit byte (7 - i)) [bitidx..<8])"
      using True by (simp add: upt_conv_Cons crc16_bit_shift)
    finally show ?thesis .
  next
    case False
    then show ?thesis
      by (subst crc16_bits.simps) simp
  qed
qed

lemma crc16_bytes_foldl: "crc16_bytes bs crc = foldl crc16_shift crc (bits_of_bytes bs)"
  by (induction bs arbitrary: crc) (simp_all add: bits_of_bytes_def crc16_bits_foldl bits_of_byte_def)

lemma and_ffff: "(w :: u16) AND 0xffff = w"
proof -
  have "(0xffff :: u16) = - 1" by simp
  then show ?thesis by (simp only: and.right_neutral word_bitwise_m1_simps)
qed

lemma stellar_crc16_ccitt: "stellar_crc16 bytes len = crc16_ccitt (take len bytes)"
  by (simp only: stellar_crc16_def crc16_ccitt_def crc16_bytes_foldl and_ffff)

lemma low_byte: "(ucast ((w :: u16) AND 0x00ff) :: u8) = ucast w"
  by (rule bit_word_eqI) (auto simp: bit_simps dest!: lt8_cases)

lemma high_byte: "(ucast (drop_bit 8 (w :: u16) AND 0x00ff) :: u8) = ucast (drop_bit 8 w)"
  by (rule bit_word_eqI) (auto simp: bit_simps dest!: lt8_cases)

lemma length_bits_of_bytes: "length (bits_of_bytes bs) = 8 * length bs"
  by (induction bs) (simp_all add: bits_of_bytes_def bits_of_byte_def)

lemma length_group5: "length (group5 bs) = (length bs + 4) div 5"
  by (induction bs rule: group5.induct) simp_all

lemma length_base32_encode: "length (base32_encode bs) = (8 * length bs + 4) div 5"
  by (simp add: base32_encode_def length_group5 length_bits_of_bytes)

subsection \<open>The examples\<close>

lemma example_deriveNode: "stellar_deriveNode example_primitives 0 = Some example_node"
  by (simp add: stellar_deriveNode_def example_primitives_def example_node_def)

lemma locked_deriveNode: "stellar_deriveNode locked_primitives idx = None"
  by (simp add: stellar_deriveNode_def locked_primitives_def)

lemma failing_ckd_deriveNode: "stellar_deriveNode failing_ckd_primitives idx = None"
  by (simp add: stellar_deriveNode_def failing_ckd_primitives_def example_primitives_def)

lemma example_passphrase:
  "strn 1024 (network_passphrase example_header) =
     c_literal ''Public Global Stellar Network ; September 2015''"
  by (simp add: example_header_def strn_def c_literal_def)

lemma example_init:
  "stellar_signingInit example_primitives example_header idle_state = Inr example_session"
proof -
  have idx: "index example_header = 0"
    by (simp add: example_header_def)
  have kind: "network_kind example_header = 1"
    by (simp add: network_kind_def strncmp_eq_def example_passphrase) (simp add: strn_def c_literal_def)
  have key: "node_pubkey example_node = replicate 32 0"
    by (simp add: node_pubkey_def example_node_def)
  have digest: "sha256 example_primitives (strn 1024 (network_passphrase example_header)) = replicate 32 46"
    by (simp add: example_passphrase) (simp add: example_primitives_def c_literal_def)
  have bytes: "header_bytes example_primitives example_header (replicate 32 0) = example_header_hashed"
    unfolding header_bytes_def header_start_bytes_def digest
    by (simp add: example_header_def timebounds_bytes_def memo_bytes_def be32_def be64_def
        example_header_hashed_def)
  show ?thesis
    using signingInit_result [of example_primitives example_header example_node idle_state]
    by (simp add: idx example_deriveNode kind key bytes example_session_def idle_state_def)
      (simp add: example_header_def)
qed

lemma example_confirmed_reached:
  "stellar_addOperation example_create_account (example_session\<lparr>buttons := [True]\<rparr>) = example_confirmed"
  by (simp add: stellar_addOperation_def hash_source_account_eq confirmCreateAccountOp_eq Let_def
      hashupdate_append allOperationsConfirmed_eq example_create_account_def example_session_def
      example_confirmed_def answer_def ask_def protectButton_def stellar_layoutTransactionDialog_def
      confirm_op_def set_tx_def append_hash_def confirmed_def nops_def create_account_bytes_def
      be32_def be64_def)


section \<open>The claims\<close>

subsection \<open>C1: the bytes of a Payment\<close>

text \<open>
  C1. For every Payment, \<^verbatim>\<open>stellar_confirmPaymentOp\<close> should feed the hash with the
  destination as an address, the asset (for a native asset its type 0; for a code of
  four characters the type 1, the four bytes of the code and the 32 bytes of the
  issuer; for a code of twelve characters the type 2, the twelve bytes and the issuer)
  and the amount on 64 bits. The code feeds the type of the asset in the branch of the
  native asset only. On the example payment, whose asset has type 1 and code USD, the
  bytes fed are the destination, the code, the issuer and the amount: the four bytes
  \<open>00 00 00 01\<close> that the claim places before the code are missing.
\<close>

theorem payment_alphanum4_omits_asset_type:
  "hashed (stellar_confirmPaymentOp example_payment (example_session\<lparr>buttons := [True]\<rparr>)) =
     hashed example_session @ be32 0 @ replicate 32 5 @
       [85, 83, 68, 0] @ replicate 32 9 @ be64 50000000 \<and>
   hashed (stellar_confirmPaymentOp example_payment (example_session\<lparr>buttons := [True]\<rparr>)) \<noteq>
     hashed example_session @ be32 0 @ replicate 32 5 @
       be32 1 @ [85, 83, 68, 0] @ replicate 32 9 @ be64 50000000"
proof -
  let ?s = "example_session\<lparr>buttons := [True]\<rparr>"
  have fed: "hashed (stellar_confirmPaymentOp example_payment ?s) =
      hashed ?s @ payment_bytes example_payment"
    by (rule confirmPaymentOp_hashed)
  have before: "hashed ?s = hashed example_session"
    by (simp add: hashed_def)
  have payment: "payment_bytes example_payment =
      be32 0 @ replicate 32 5 @ [85, 83, 68, 0] @ replicate 32 9 @ be64 50000000"
    by (simp add: payment_bytes_def asset_bytes_def example_payment_def c_literal_def)
  show ?thesis
    unfolding fed before payment by (simp add: be32_def)
qed

subsection \<open>C2: the two counters\<close>

text \<open>
  C2, as stated, fails. The claim: at every point of a session the number of confirmed
  operations is at most the number of operations of the header, and a call that
  processes an operation when the two are equal fails with an error, confirms nothing
  and feeds nothing to the hash. In the example session, after its one operation is
  confirmed, a second CreateAccount that the user accepts is processed like the first:
  no failure is sent, its bytes are fed to the hash, and the count of confirmed
  operations becomes 2 while the header announced 1.
\<close>

theorem over_confirming_example:
  "stellar_signing example_confirmed \<and>
   confirmed example_confirmed = nops example_confirmed \<and>
   events (stellar_addOperation example_create_account (example_confirmed\<lparr>buttons := [True]\<rparr>)) =
     events example_confirmed @ [TransactionDialog CreateAccountDialog, ButtonRequest] \<and>
   hashed (stellar_addOperation example_create_account (example_confirmed\<lparr>buttons := [True]\<rparr>)) =
     hashed example_confirmed @ be32 0 @ be32 0 @ create_account_bytes example_create_account \<and>
   confirmed (stellar_addOperation example_create_account (example_confirmed\<lparr>buttons := [True]\<rparr>)) = 2 \<and>
   nops (stellar_addOperation example_create_account (example_confirmed\<lparr>buttons := [True]\<rparr>)) = 1 \<and>
   \<not> confirmed (stellar_addOperation example_create_account (example_confirmed\<lparr>buttons := [True]\<rparr>))
       \<le> nops (stellar_addOperation example_create_account (example_confirmed\<lparr>buttons := [True]\<rparr>))"
proof -
  let ?s = "example_confirmed\<lparr>buttons := [True]\<rparr>"
  have a: "stellar_signing ?s" "answer ?s" "confirmed ?s = 1" "nops ?s = 1"
    "hashed ?s = hashed example_confirmed" "events ?s = events example_confirmed"
    by (simp_all add: example_confirmed_def answer_def confirmed_def nops_def hashed_def)
  have b: "pb_size (source_account example_create_account) = 0" "op_type example_create_account = 0"
    by (simp_all add: example_create_account_def)
  have c: "stellar_addOperation example_create_account ?s =
      confirm_op (ask CreateAccountDialog
        (append_hash (be32 0 @ be32 0 @ create_account_bytes example_create_account) ?s))"
    by (simp add: stellar_addOperation_def hash_source_account_eq confirmCreateAccountOp_eq Let_def
        hashupdate_append allOperationsConfirmed_eq a b step_fields)
  show ?thesis
    unfolding c
    by (simp add: step_fields a) (simp add: example_confirmed_def confirmed_def nops_def word_le_nat_alt)
qed

text \<open>
  C2, amended. The count of confirmed operations is 0, hence at most the number of
  operations, when the header step returns; a call that processes an operation while
  fewer operations are confirmed than the header announced leaves it at most that
  number; and a call that processes an operation while no session is active sends the
  failure \<open>UnexpectedMessage\<close>, shows the home screen and changes nothing else: no
  operation is confirmed and nothing is fed to the hash. The code tests only
  \<^verbatim>\<open>stellar_signing\<close>; it does not compare the two counters before it processes an
  operation.
\<close>

theorem operation_count_invariant:
  assumes "stellar_signingInit P hdr s0 = Inr s1"
    and "confirmed s < nops s"
    and "\<not> stellar_signing t"
  shows "confirmed s1 = 0 \<and> confirmed s1 \<le> nops s1 \<and>
    confirmed (stellar_addOperation msg s) \<le> nops (stellar_addOperation msg s) \<and>
    stellar_addOperation msg' t =
      t\<lparr>events := events t @
        [SendFailure Failure_UnexpectedMessage (Some ''Not in Stellar signing mode''), LayoutHome]\<rparr> \<and>
    confirmed (stellar_addOperation msg' t) = confirmed t \<and>
    hashed (stellar_addOperation msg' t) = hashed t"
proof -
  have init: "confirmed s1 = 0"
    using assms(1) by (rule signingInit_Inr)
  have "confirmed s + 1 \<le> nops s"
    using assms(2) by (simp add: inc_le)
  with assms(2) have step: "confirmed (stellar_addOperation msg s) \<le> nops (stellar_addOperation msg s)"
    using addOperation_confirmed [of msg s] by (auto simp: addOperation_nops)
  show ?thesis
    using init step assms(3) by (simp add: addOperation_idle confirmed_def hashed_def)
qed

theorem operation_count_invariant_witness:
  "stellar_signingInit example_primitives example_header idle_state = Inr example_session \<and>
   confirmed (example_session\<lparr>buttons := [True]\<rparr>) < nops (example_session\<lparr>buttons := [True]\<rparr>) \<and>
   \<not> stellar_signing idle_state \<and>
   confirmed example_session \<le> nops example_session \<and>
   confirmed (stellar_addOperation example_create_account (example_session\<lparr>buttons := [True]\<rparr>))
     \<le> nops (stellar_addOperation example_create_account (example_session\<lparr>buttons := [True]\<rparr>)) \<and>
   stellar_addOperation example_create_account idle_state =
     idle_state\<lparr>events :=
       [SendFailure Failure_UnexpectedMessage (Some ''Not in Stellar signing mode''), LayoutHome]\<rparr>"
proof -
  have lt: "confirmed (example_session\<lparr>buttons := [True]\<rparr>) < nops (example_session\<lparr>buttons := [True]\<rparr>)"
    by (simp add: example_session_def confirmed_def nops_def)
  have idle: "\<not> stellar_signing idle_state"
    by (simp add: idle_state_def)
  show ?thesis
    using operation_count_invariant [OF example_init lt idle,
        of example_create_account example_create_account] lt idle example_init
    by (simp add: idle_state_def)
qed

subsection \<open>C3: the signature\<close>




subsection \<open>C4: a key that cannot be derived\<close>

text \<open>
  C4. When the storage gives no root node, or the derivation of the child key fails,
  \<^verbatim>\<open>stellar_deriveNode\<close> returns a null pointer. The claim asks that the call then
  fails with an error that reaches the caller and ends the session. Neither caller
  tests the pointer: \<^verbatim>\<open>stellar_getPubkeyAtIndex\<close> (and with it the header step) and
  \<^verbatim>\<open>stellar_getSignatureForActiveTx\<close> read the keys through it. With a locked
  storage, and with a derivation of the child key that fails, no failure is sent and
  the session is not reset; the calls end in the dereference of a null pointer.
\<close>

theorem locked_device_dereferences_null:
  "stellar_deriveNode locked_primitives 0 = None \<and>
   stellar_getPubkeyAtIndex locked_primitives 0 (replicate 32 0) 32 = Inl NullPointerDereference \<and>
   stellar_signingInit locked_primitives example_header idle_state = Inl NullPointerDereference \<and>
   stellar_getSignatureForActiveTx locked_primitives example_confirmed = Inl NullPointerDereference \<and>
   stellar_deriveNode failing_ckd_primitives 0 = None \<and>
   stellar_signingInit failing_ckd_primitives example_header idle_state = Inl NullPointerDereference \<and>
   stellar_getSignatureForActiveTx failing_ckd_primitives example_confirmed = Inl NullPointerDereference"
  by (simp add: locked_deriveNode failing_ckd_deriveNode stellar_getPubkeyAtIndex_def signingInit_fault
      stellar_getSignatureForActiveTx_def Let_def)

subsection \<open>C5: the first 36 bytes\<close>

text \<open>
  C5. For every header that the header step accepts, the first 36 bytes fed to the
  hash are the SHA-256 digest of the network passphrase (32 bytes) followed by
  \<open>00 00 00 02\<close>, whatever the rest of the message and the state before.
\<close>

theorem header_first_36_bytes:
  assumes "stellar_signingInit P msg s = Inr s'"
    and "length (sha256 P (strn 1024 (network_passphrase msg))) = 32"
  shows "take 36 (hashed s') =
    sha256 P (strn 1024 (network_passphrase msg)) @ [0x00, 0x00, 0x00, 0x02]"
proof -
  from assms(1) obtain node where "hashed s' = header_bytes P msg (node_pubkey node)"
    by (rule signingInit_Inr)
  with assms(2) show ?thesis
    by (simp add: header_bytes_def header_start_bytes_def)
qed

theorem header_first_36_bytes_witness:
  "stellar_signingInit example_primitives example_header idle_state = Inr example_session \<and>
   length (sha256 example_primitives (strn 1024 (network_passphrase example_header))) = 32 \<and>
   take 36 (hashed example_session) =
     sha256 example_primitives (strn 1024 (network_passphrase example_header)) @ [0, 0, 0, 2] \<and>
   sha256 example_primitives (strn 1024 (network_passphrase example_header)) = replicate 32 46"
proof -
  have len: "length (sha256 example_primitives (strn 1024 (network_passphrase example_header))) = 32"
    by (simp add: example_primitives_def)
  have digest: "sha256 example_primitives (strn 1024 (network_passphrase example_header)) = replicate 32 46"
    by (simp add: example_passphrase) (simp add: example_primitives_def c_literal_def)
  show ?thesis
    using header_first_36_bytes [OF example_init len] example_init len digest by simp
qed


subsection \<open>C6: the address of a public key\<close>

text \<open>
  Checks of the model against published values: the checksum of the ASCII digits 1
  to 9 is the check value of this CRC, the encoder gives the test vectors of RFC 4648
  without their padding, and the key of 32 zero bytes has the well-known address.
\<close>

lemma crc16_check_value: "stellar_crc16 (c_literal ''123456789'') 9 = 0x31C3"
  by code_simp

lemma base32_rfc4648_vectors:
  "base32_encode (c_literal ''f'') = ''MY''"
  "base32_encode (c_literal ''fo'') = ''MZXQ''"
  "base32_encode (c_literal ''foo'') = ''MZXW6''"
  "base32_encode (c_literal ''foob'') = ''MZXW6YQ''"
  "base32_encode (c_literal ''fooba'') = ''MZXW6YTB''"
  "base32_encode (c_literal ''foobar'') = ''MZXW6YTBOI''"
  by code_simp+

lemma zero_key_address:
  "stellar_publicAddressAsStr (replicate 32 0) 57 =
     (Some ''GAAAAAAAAAAAAAAAAAAAAAAAAAAAAAAAAAAAAAAAAAAAAAAAAAAAAWHF'', 56)"
  by code_simp

text \<open>
  C6. For every public key of 32 bytes, and a buffer that holds 56 characters and the
  terminator, \<^verbatim>\<open>stellar_publicAddressAsStr\<close> writes the base32 encoding (alphabet of
  RFC 4648, no padding) of 35 bytes: the version byte \<open>6 << 3\<close>, the key, and the CRC16
  of these 33 bytes with its low byte first. The checksum is the one of the
  specification (polynomial \<open>0x1021\<close>, start value 0, bits taken most significant
  first, no reflection, no final XOR). The string has 56 characters and the function
  returns 56.
\<close>

theorem address_is_base32_of_payload:
  assumes "length key = 32" and "56 < outlen"
  shows "stellar_publicAddressAsStr key outlen =
      (Some (base32_encode
         ([push_bit 3 6] @ key @
          [ucast (crc16_ccitt (push_bit 3 6 # key)),
           ucast (drop_bit 8 (crc16_ccitt (push_bit 3 6 # key)))])), 56) \<and>
    length (base32_encode
         ([push_bit 3 6] @ key @
          [ucast (crc16_ccitt (push_bit 3 6 # key)),
           ucast (drop_bit 8 (crc16_ccitt (push_bit 3 6 # key)))])) = 56"
proof -
  have full: "bytes_full key =
      [push_bit 3 6] @ key @
      [ucast (crc16_ccitt (push_bit 3 6 # key)), ucast (drop_bit 8 (crc16_ccitt (push_bit 3 6 # key)))]"
    using assms(1) by (simp add: bytes_full_def Let_def stellar_crc16_ccitt low_byte high_byte)
  have len: "length (base32_encode (bytes_full key)) = 56"
    unfolding full using assms(1) by (simp add: length_base32_encode)
  show ?thesis
    using len assms(2) unfolding full [symmetric]
    by (simp add: stellar_publicAddressAsStr_def Let_def)
qed

theorem address_is_base32_of_payload_witness:
  "length (replicate 32 (0 :: u8)) = 32 \<and> (56 :: nat) < 57 \<and>
   stellar_publicAddressAsStr (replicate 32 0) 57 =
      (Some (base32_encode
         ([push_bit 3 6] @ replicate 32 0 @
          [ucast (crc16_ccitt (push_bit 3 6 # replicate 32 0)),
           ucast (drop_bit 8 (crc16_ccitt (push_bit 3 6 # replicate 32 0)))])), 56) \<and>
   length (base32_encode
         ([push_bit 3 6] @ replicate 32 0 @
          [ucast (crc16_ccitt (push_bit 3 6 # replicate 32 0)),
           ucast (drop_bit 8 (crc16_ccitt (push_bit 3 6 # replicate 32 0)))])) = 56"
proof -
  have a: "length (replicate 32 (0 :: u8)) = 32" by simp
  have b: "(56 :: nat) < 57" by simp
  show ?thesis
    using address_is_base32_of_payload [OF a b] by simp
qed

subsection \<open>C7: nothing is left of an earlier session\<close>

text \<open>
  C7. The header step run on the same header from any two states gives the same
  outcome: either both runs end in the same fault, or both return, with the same
  \<^verbatim>\<open>stellar_signing\<close>, the same \<^verbatim>\<open>stellar_activeTx\<close> and the same bytes fed to the
  hash. The state before, be it idle, active or left by an abort, has no part in it.
\<close>

theorem header_step_forgets_previous_session:
  "map_sum id (\<lambda>t. (session t, hashed t)) (stellar_signingInit P msg s1) =
   map_sum id (\<lambda>t. (session t, hashed t)) (stellar_signingInit P msg s2)"
proof (cases "stellar_deriveNode P (index msg)")
  case None
  then show ?thesis by (simp add: signingInit_fault)
next
  case (Some node)
  then show ?thesis by (simp add: signingInit_result session_def hashed_def)
qed

subsection \<open>C8: operations of other types\<close>

text \<open>
  C8, as stated, fails. The claim: an operation whose type is neither 0 nor 1,
  processed in an active session, feeds the source-account field and its type to the
  hash, asks the user nothing and reports no error. The example operation has type 5
  and a source account; the user is asked to confirm that account and rejects it. The
  session is aborted: the failure \<open>ActionCancelled\<close> is sent and nothing is fed to the
  hash.
\<close>

theorem other_operation_rejected_source:
  "stellar_signing (example_session\<lparr>buttons := [False]\<rparr>) \<and>
   op_type example_other_op = 5 \<and>
   events (stellar_addOperation example_other_op (example_session\<lparr>buttons := [False]\<rparr>)) =
     [TransactionDialog OpSrcAccountDialog, ButtonRequest,
      SendFailure Failure_ActionCancelled None, LayoutHome] \<and>
   hashed (stellar_addOperation example_other_op (example_session\<lparr>buttons := [False]\<rparr>)) =
     hashed example_session \<and>
   \<not> stellar_signing (stellar_addOperation example_other_op (example_session\<lparr>buttons := [False]\<rparr>))"
proof -
  let ?s = "example_session\<lparr>buttons := [False]\<rparr>"
  have a: "stellar_signing ?s" "\<not> answer ?s" "events ?s = []" "hashed ?s = hashed example_session"
    by (simp_all add: example_session_def answer_def hashed_def)
  have b: "op_type example_other_op = 5" "pb_size (source_account example_other_op) = 32"
    by (simp_all add: example_other_op_def)
  have c: "stellar_addOperation example_other_op ?s = stellar_signingAbort (ask OpSrcAccountDialog ?s)"
    by (simp add: addOperation_other a b)
  show ?thesis
    unfolding c by (simp add: step_fields a b)
qed

text \<open>
  C8, amended. Let an operation whose type is neither 0 nor 1 be processed in an
  active session. The count of confirmed operations stays as it is. If the message
  has no source account, the call feeds \<open>00 00 00 00\<close> and the type on four bytes,
  big-endian, to the hash, shows no dialog and sends no failure. If it has one, the
  user is asked to confirm it: on acceptance the call feeds the source account as an
  address and the type, and sends no failure; on rejection it feeds nothing, sends
  the failure \<open>ActionCancelled\<close> and ends the session. In the two cases that feed the
  hash, four zero bytes follow when the count of confirmed operations equals the
  number of operations. No field of the operation itself is fed to the hash and no
  dialog about the operation is shown.
\<close>

theorem other_operation_types:
  assumes "stellar_signing s" and "op_type msg \<noteq> 0" and "op_type msg \<noteq> 1"
  shows "confirmed (stellar_addOperation msg s) = confirmed s \<and>
    (if pb_size (source_account msg) = 0 then
       hashed (stellar_addOperation msg s) = hashed s @ be32 0 @ be32 (op_type msg) @ trailer s \<and>
       events (stellar_addOperation msg s) = events s \<and>
       stellar_signing (stellar_addOperation msg s)
     else if answer s then
       hashed (stellar_addOperation msg s) =
         hashed s @ be32 0 @ take 32 (pb_bytes (source_account msg)) @ be32 (op_type msg) @ trailer s \<and>
       events (stellar_addOperation msg s) =
         events s @ [TransactionDialog OpSrcAccountDialog, ButtonRequest] \<and>
       stellar_signing (stellar_addOperation msg s)
     else
       hashed (stellar_addOperation msg s) = hashed s \<and>
       events (stellar_addOperation msg s) =
         events s @ [TransactionDialog OpSrcAccountDialog, ButtonRequest,
                     SendFailure Failure_ActionCancelled None, LayoutHome] \<and>
       \<not> stellar_signing (stellar_addOperation msg s))"
  using assms by (simp add: addOperation_other step_fields)

theorem other_operation_types_witness:
  "stellar_signing example_session \<and>
   op_type example_other_op \<noteq> 0 \<and> op_type example_other_op \<noteq> 1 \<and>
   op_type example_other_op_no_source \<noteq> 0 \<and> op_type example_other_op_no_source \<noteq> 1 \<and>
   hashed (stellar_addOperation example_other_op_no_source example_session) =
     hashed example_session @ [0, 0, 0, 0] @ [0, 0, 0, 5] \<and>
   events (stellar_addOperation example_other_op_no_source example_session) = [] \<and>
   confirmed (stellar_addOperation example_other_op_no_source example_session) = 0 \<and>
   hashed (stellar_addOperation example_other_op (example_session\<lparr>buttons := [True]\<rparr>)) =
     hashed example_session @ [0, 0, 0, 0] @ replicate 32 3 @ [0, 0, 0, 5] \<and>
   events (stellar_addOperation example_other_op (example_session\<lparr>buttons := [True]\<rparr>)) =
     [TransactionDialog OpSrcAccountDialog, ButtonRequest] \<and>
   confirmed (stellar_addOperation example_other_op (example_session\<lparr>buttons := [True]\<rparr>)) = 0 \<and>
   stellar_signing (stellar_addOperation example_other_op (example_session\<lparr>buttons := [True]\<rparr>)) \<and>
   hashed (stellar_addOperation example_other_op (example_session\<lparr>buttons := [False]\<rparr>)) =
     hashed example_session \<and>
   confirmed (stellar_addOperation example_other_op (example_session\<lparr>buttons := [False]\<rparr>)) = 0"
proof -
  let ?yes = "example_session\<lparr>buttons := [True]\<rparr>"
  let ?no = "example_session\<lparr>buttons := [False]\<rparr>"
  have s: "stellar_signing example_session" "stellar_signing ?yes" "stellar_signing ?no"
    by (simp_all add: example_session_def)
  have a: "answer ?yes" "\<not> answer ?no" "events example_session = []" "events ?yes = []"
    "hashed ?yes = hashed example_session" "hashed ?no = hashed example_session"
    "confirmed example_session = 0" "confirmed ?yes = 0" "confirmed ?no = 0"
    "trailer example_session = []" "trailer ?yes = []"
    by (simp_all add: example_session_def answer_def hashed_def confirmed_def trailer_def nops_def)
  have b: "op_type example_other_op \<noteq> 0" "op_type example_other_op \<noteq> 1"
    "op_type example_other_op_no_source \<noteq> 0" "op_type example_other_op_no_source \<noteq> 1"
    by (simp_all add: example_other_op_def example_other_op_no_source_def)
  have c: "op_type example_other_op = 5" "pb_size (source_account example_other_op) = 32"
    "pb_bytes (source_account example_other_op) = replicate 32 3"
    "op_type example_other_op_no_source = 5" "pb_size (source_account example_other_op_no_source) = 0"
    by (simp_all add: example_other_op_def example_other_op_no_source_def)
  show ?thesis
    using other_operation_types [OF s(1) b(3) b(4)] other_operation_types [OF s(2) b(1) b(2)]
      other_operation_types [OF s(3) b(1) b(2)] s(1) b
    by (simp add: a c be32_def)
qed

subsection \<open>C9: abort\<close>

text \<open>
  C9. From any state, \<^verbatim>\<open>stellar_signingAbort\<close> leaves the session inactive and tells
  the caller, with the failure \<open>ActionCancelled\<close>, that the action is cancelled. A
  second abort right after the first leaves the session as the first left it,
  inactive and with the same transaction data. The function has no failing path; the
  second call sends its failure message like the first.
\<close>

theorem abort_twice:
  "\<not> stellar_signing (stellar_signingAbort s) \<and>
   events (stellar_signingAbort s) = events s @ [SendFailure Failure_ActionCancelled None, LayoutHome] \<and>
   session (stellar_signingAbort (stellar_signingAbort s)) = session (stellar_signingAbort s) \<and>
   \<not> stellar_signing (stellar_signingAbort (stellar_signingAbort s))"
  by (simp add: signingAbort_fields session_def)

subsection \<open>C10: a memo of an unknown type\<close>

text \<open>
  C10, as stated, fails. The claim: for every header whose memo type is none of 0, 1,
  2, 3, 4 the header step feeds the memo type and no memo payload to the hash and
  completes normally. The key of the account is derived before the memo is read; with
  a locked storage the step reads the key through a null pointer and does not
  complete, whatever the memo type.
\<close>

theorem unknown_memo_type_locked_device:
  "memo_type example_header_memo5 = 5 \<and>
   stellar_signingInit locked_primitives example_header_memo5 idle_state =
     Inl NullPointerDereference"
  by (simp add: signingInit_fault locked_deriveNode) (simp add: example_header_memo5_def)

text \<open>
  C10, amended. For every header whose memo type is none of 0, 1, 2, 3, 4 and for
  which the derivation of the key of the account succeeds, the header step returns;
  the bytes fed to the hash are the bytes of the header up to the time bounds, the
  memo type on four bytes, big-endian, and at once the number of operations: no byte
  of the memo text, identifier or hash. Nothing is sent to the caller and the session
  is active.
\<close>

theorem unknown_memo_type:
  assumes "memo_type msg \<notin> {0, 1, 2, 3, 4}"
    and "stellar_deriveNode P (index msg) = Some node"
  shows "\<exists>s'. stellar_signingInit P msg s = Inr s' \<and>
    hashed s' = header_start_bytes P msg (node_pubkey node) @
      be32 (memo_type msg) @ be32 (num_operations msg) \<and>
    events s' = events s \<and> stellar_signing s'"
proof -
  from assms(1) have "memo_bytes msg = be32 (memo_type msg)"
    by (simp add: memo_bytes_def)
  then show ?thesis
    by (simp add: signingInit_result [OF assms(2)] hashed_def header_bytes_def)
qed

theorem unknown_memo_type_witness:
  "memo_type example_header_memo5 \<notin> {0, 1, 2, 3, 4} \<and>
   stellar_deriveNode example_primitives (index example_header_memo5) = Some example_node \<and>
   (\<exists>s'. stellar_signingInit example_primitives example_header_memo5 idle_state = Inr s' \<and>
     hashed s' = replicate 32 46 @ [0, 0, 0, 2] @ [0, 0, 0, 0] @ replicate 32 0 @ [0, 0, 0, 100] @
       [0, 0, 0, 0, 0, 0, 0, 1] @ [0, 0, 0, 0] @ [0, 0, 0, 5] @ [0, 0, 0, 1] \<and>
     events s' = [] \<and> stellar_signing s')"
proof -
  have memo: "memo_type example_header_memo5 \<notin> {0, 1, 2, 3, 4}"
    by (simp add: example_header_memo5_def)
  have node: "stellar_deriveNode example_primitives (index example_header_memo5) = Some example_node"
    by (simp add: example_header_memo5_def example_header_def example_deriveNode)
  have same: "strn 1024 (network_passphrase example_header_memo5) =
      strn 1024 (network_passphrase example_header)"
    by (simp add: example_header_memo5_def)
  have digest: "sha256 example_primitives (strn 1024 (network_passphrase example_header_memo5)) =
      replicate 32 46"
    unfolding same example_passphrase by (simp add: example_primitives_def c_literal_def)
  have start: "header_start_bytes example_primitives example_header_memo5 (node_pubkey example_node) =
      replicate 32 46 @ [0, 0, 0, 2] @ [0, 0, 0, 0] @ replicate 32 0 @ [0, 0, 0, 100] @
      [0, 0, 0, 0, 0, 0, 0, 1] @ [0, 0, 0, 0]"
    unfolding header_start_bytes_def digest
    by (simp add: example_header_memo5_def example_header_def timebounds_bytes_def be32_def
        be64_def node_pubkey_def example_node_def)
  have rest: "be32 (memo_type example_header_memo5) = [0, 0, 0, 5]"
    "be32 (num_operations example_header_memo5) = [0, 0, 0, 1]"
    by (simp_all add: example_header_memo5_def example_header_def be32_def)
  show ?thesis
    using unknown_memo_type [OF memo node, of idle_state] memo node
    by (simp add: start rest idle_state_def)
qed


end
